theory Spec2Isabelle
  imports Complex_Main
begin

section \<open>Values of the source language\<close>

text \<open>
  The services signal failure by \<^verbatim>\<open>throw new Error(message)\<close>; two such errors differ only
  in their message. The document store rejects a document or an update that fails the
  schema's validators with a \<^verbatim>\<open>ValidationError\<close> carrying the validators' messages,
  and a query it cannot run with a \<^verbatim>\<open>MongoServerError\<close>.
  An \<^verbatim>\<open>async\<close> method that throws is modelled by a result \<open>Inl e\<close>, one that returns
  \<open>v\<close> by \<open>Inr v\<close>.

  Strings are ASCII strings. A quantity is an integer (\<open>int\<close>); a price is a rational
  number. An optional parameter or property (\<^verbatim>\<open>userId?: string\<close>) is an \<open>option\<close>,
  \<open>None\<close> standing for \<^verbatim>\<open>undefined\<close>.
\<close>

datatype error = Error string | ValidationError "string list" | MongoServerError

text \<open>The truth value of an optional string in a condition: \<^verbatim>\<open>undefined\<close> and the empty
  string are false, every other string is true.\<close>

definition truthy :: "string option \<Rightarrow> bool" where
  "truthy v = (case v of None \<Rightarrow> False | Some s \<Rightarrow> s \<noteq> [])"

text \<open>\<^verbatim>\<open>String.prototype.toUpperCase\<close> and \<^verbatim>\<open>toLowerCase\<close> on ASCII: the first maps the
  letters \<open>a\<close>..\<open>z\<close> (codes 97..122) to \<open>A\<close>..\<open>Z\<close> (codes 65..90), the second maps them
  back; every other character is kept.\<close>

definition toUpperChar :: "char \<Rightarrow> char" where
  "toUpperChar c =
     (let n = (of_char c :: nat) in if 97 \<le> n \<and> n \<le> 122 then char_of (n - 32) else c)"

definition toLowerChar :: "char \<Rightarrow> char" where
  "toLowerChar c =
     (let n = (of_char c :: nat) in if 65 \<le> n \<and> n \<le> 90 then char_of (n + 32) else c)"

definition toUpperCase :: "string \<Rightarrow> string" where
  "toUpperCase s = map toUpperChar s"

definition toLowerCase :: "string \<Rightarrow> string" where
  "toLowerCase s = map toLowerChar s"

text \<open>\<^verbatim>\<open>String.prototype.trim\<close> on ASCII removes leading and trailing white space: space,
  tab, line feed, vertical tab, form feed and carriage return.\<close>

definition isSpace :: "char \<Rightarrow> bool" where
  "isSpace c = (let n = (of_char c :: nat) in n = 32 \<or> (9 \<le> n \<and> n \<le> 13))"

definition trim :: "string \<Rightarrow> string" where
  "trim s = rev (dropWhile isSpace (rev (dropWhile isSpace s)))"

text \<open>Two SKUs are equal up to letter case when they agree after upper-casing.\<close>

definition sameSkuIgnoringCase :: "string \<Rightarrow> string \<Rightarrow> bool" where
  "sameSkuIgnoringCase a b = (toUpperCase a = toUpperCase b)"


section \<open>Products (\<^verbatim>\<open>IProduct\<close>, \<^verbatim>\<open>models/Product.ts\<close>)\<close>

text \<open>
  A stored product document. \<open>pid\<close> is the document's \<^verbatim>\<open>_id\<close> and \<open>userId\<close> the owner's
  id, both in their string form (\<^verbatim>\<open>toString()\<close>); ids are well-formed, the store's
  rejection of a malformed id is not modelled. The time stamps \<^verbatim>\<open>createdAt\<close> and
  \<^verbatim>\<open>updatedAt\<close> are used by the store's sort only, which is a parameter below.
\<close>

record product =
  pid :: string
  name :: string
  description :: "string option"
  sku :: string
  category :: string
  price :: rat
  quantity :: int
  minStockLevel :: int
  images :: "string list"
  isActive :: bool
  userId :: string

text \<open>The collection of products is the list of its documents in insertion order; a query
  for one document returns the first that matches.\<close>

type_synonym product_store = "product list"

datatype stock_status = OUT_OF_STOCK | LOW_STOCK | IN_STOCK

text \<open>The virtuals \<^verbatim>\<open>isLowStock\<close> and \<^verbatim>\<open>stockStatus\<close> of the schema.\<close>

definition isLowStock :: "product \<Rightarrow> bool" where
  "isLowStock p = (quantity p \<le> minStockLevel p)"

definition stockStatus :: "product \<Rightarrow> stock_status" where
  "stockStatus p =
     (if quantity p = 0 then OUT_OF_STOCK
      else if quantity p \<le> minStockLevel p then LOW_STOCK
      else IN_STOCK)"


section \<open>Requests (\<^verbatim>\<open>types\<close>)\<close>

text \<open>\<^verbatim>\<open>CreateProductRequest\<close>: the body of a create call; \<^verbatim>\<open>images\<close> is optional. The
  quantity and the minimum stock level are present, as the type requires, so the schema's
  defaults for them (0 and 5) are not used.\<close>

record CreateProductRequest =
  req_name :: string
  req_description :: "string option"
  req_sku :: string
  req_category :: string
  req_price :: rat
  req_quantity :: int
  req_minStockLevel :: int
  req_images :: "string list option"

text \<open>\<^verbatim>\<open>UpdateProductRequest = Partial<CreateProductRequest>\<close>: every property optional.\<close>

record UpdateProductRequest =
  upd_name :: "string option"
  upd_description :: "string option"
  upd_sku :: "string option"
  upd_category :: "string option"
  upd_price :: "rat option"
  upd_quantity :: "int option"
  upd_minStockLevel :: "int option"
  upd_images :: "string list option"

text \<open>The update documents the repository receives: the properties of an
  \<^verbatim>\<open>UpdateProductRequest\<close>, or \<^verbatim>\<open>{ isActive: false }\<close>, or \<^verbatim>\<open>{ quantity }\<close>.\<close>

record UpdateQuery =
  set_name :: "string option"
  set_description :: "string option"
  set_sku :: "string option"
  set_category :: "string option"
  set_price :: "rat option"
  set_quantity :: "int option"
  set_minStockLevel :: "int option"
  set_images :: "string list option"
  set_isActive :: "bool option"

definition emptyUpdate :: UpdateQuery where
  "emptyUpdate =
     \<lparr>set_name = None, set_description = None, set_sku = None, set_category = None,
      set_price = None, set_quantity = None, set_minStockLevel = None, set_images = None,
      set_isActive = None\<rparr>"

definition toUpdateQuery :: "UpdateProductRequest \<Rightarrow> UpdateQuery" where
  "toUpdateQuery u =
     \<lparr>set_name = upd_name u, set_description = upd_description u, set_sku = upd_sku u,
      set_category = upd_category u, set_price = upd_price u, set_quantity = upd_quantity u,
      set_minStockLevel = upd_minStockLevel u, set_images = upd_images u,
      set_isActive = None\<rparr>"

text \<open>The messages of the errors the product service throws, under the names the
  specification gives these failures.\<close>

abbreviation DuplicateSKU :: error where
  "DuplicateSKU \<equiv> Error ''Product with this SKU already exists''"

abbreviation NotFoundOrForbidden :: error where
  "NotFoundOrForbidden \<equiv> Error ''Product not found or access denied''"

abbreviation NegativeQuantity :: error where
  "NegativeQuantity \<equiv> Error ''Quantity cannot be negative''"

abbreviation InsufficientStock :: error where
  "InsufficientStock \<equiv> Error ''Insufficient stock for this adjustment''"


section \<open>The product schema: setters and validators (\<^verbatim>\<open>models/Product.ts\<close>)\<close>

text \<open>The image validator \<^verbatim>\<open>/^https?:\/\/.+/\<close>: the string starts with \<^verbatim>\<open>http://\<close> or
  \<^verbatim>\<open>https://\<close>, and a character that is not a line terminator follows.\<close>

definition isLineTerminator :: "char \<Rightarrow> bool" where
  "isLineTerminator c = (let n = (of_char c :: nat) in n = 10 \<or> n = 13)"

definition startsNonEmptyLine :: "string \<Rightarrow> bool" where
  "startsNonEmptyLine r = (case r of [] \<Rightarrow> False | c # _ \<Rightarrow> \<not> isLineTerminator c)"

definition isImageUrl :: "string \<Rightarrow> bool" where
  "isImageUrl v =
     (if take 7 v = ''http://'' then startsNonEmptyLine (drop 7 v)
      else if take 8 v = ''https://'' then startsNonEmptyLine (drop 8 v)
      else False)"

text \<open>One function per path of the schema: the message of the first validator of the
  path that fails on the value (after the path's setters), if any.\<close>

definition validateName :: "string \<Rightarrow> string list" where
  "validateName v =
     (if v = [] then [''Product name is required'']
      else if 100 < length v then [''Product name cannot exceed 100 characters'']
      else [])"

definition validateDescription :: "string \<Rightarrow> string list" where
  "validateDescription v =
     (if 500 < length v then [''Description cannot exceed 500 characters''] else [])"

definition validateSku :: "string \<Rightarrow> string list" where
  "validateSku v =
     (if v = [] then [''SKU is required'']
      else if 50 < length v then [''SKU cannot exceed 50 characters'']
      else [])"

definition validateCategory :: "string \<Rightarrow> string list" where
  "validateCategory v =
     (if v = [] then [''Category is required'']
      else if 50 < length v then [''Category cannot exceed 50 characters'']
      else [])"

definition validatePrice :: "rat \<Rightarrow> string list" where
  "validatePrice v = (if v < 0 then [''Price cannot be negative''] else [])"

definition validateQuantity :: "int \<Rightarrow> string list" where
  "validateQuantity v = (if v < 0 then [''Quantity cannot be negative''] else [])"

definition validateMinStockLevel :: "int \<Rightarrow> string list" where
  "validateMinStockLevel v =
     (if v < 0 then [''Minimum stock level cannot be negative''] else [])"

definition validateImages :: "string list \<Rightarrow> string list" where
  "validateImages vs =
     concat (map (\<lambda>v. if isImageUrl v then [] else [''Image must be a valid URL'']) vs)"

definition validateUserId :: "string \<Rightarrow> string list" where
  "validateUserId v = (if v = [] then [''User ID is required''] else [])"

definition validateOpt :: "('a \<Rightarrow> string list) \<Rightarrow> 'a option \<Rightarrow> string list" where
  "validateOpt f v = (case v of None \<Rightarrow> [] | Some x \<Rightarrow> f x)"

text \<open>Validation of a whole document, run by \<^verbatim>\<open>save\<close>.\<close>

definition validateDocument :: "product \<Rightarrow> string list" where
  "validateDocument p =
     validateName (name p) @ validateOpt validateDescription (description p) @
     validateSku (sku p) @ validateCategory (category p) @ validatePrice (price p) @
     validateQuantity (quantity p) @ validateMinStockLevel (minStockLevel p) @
     validateImages (images p) @ validateUserId (userId p)"

text \<open>\<^verbatim>\<open>new this.model(data)\<close> for the data \<^verbatim>\<open>{ ...productData, userId, images }\<close> that
  \<^verbatim>\<open>createProduct\<close> passes: the string paths are trimmed, the SKU is also upper-cased,
  \<^verbatim>\<open>isActive\<close> takes its default \<^verbatim>\<open>true\<close>. The fresh \<^verbatim>\<open>_id\<close> is generated by the driver
  and is a parameter here.\<close>

definition newDocument ::
  "string \<Rightarrow> string \<Rightarrow> string list \<Rightarrow> CreateProductRequest \<Rightarrow> product" where
  "newDocument newId owner imgs d =
     \<lparr>pid = newId, name = trim (req_name d),
      description = map_option trim (req_description d),
      sku = toUpperCase (trim (req_sku d)), category = trim (req_category d),
      price = req_price d, quantity = req_quantity d,
      minStockLevel = req_minStockLevel d, images = imgs, isActive = True,
      userId = owner\<rparr>"

text \<open>The update validators (\<^verbatim>\<open>runValidators: true\<close>) check the paths the update sets,
  after the setters.\<close>

definition validateUpdate :: "UpdateQuery \<Rightarrow> string list" where
  "validateUpdate q =
     validateOpt validateName (map_option trim (set_name q)) @
     validateOpt validateDescription (map_option trim (set_description q)) @
     validateOpt validateSku (map_option (toUpperCase \<circ> trim) (set_sku q)) @
     validateOpt validateCategory (map_option trim (set_category q)) @
     validateOpt validatePrice (set_price q) @
     validateOpt validateQuantity (set_quantity q) @
     validateOpt validateMinStockLevel (set_minStockLevel q) @
     validateOpt validateImages (set_images q)"

definition applyUpdate :: "UpdateQuery \<Rightarrow> product \<Rightarrow> product" where
  "applyUpdate q p =
     p\<lparr>name := (case set_name q of None \<Rightarrow> name p | Some v \<Rightarrow> trim v),
       description :=
         (case set_description q of None \<Rightarrow> description p | Some v \<Rightarrow> Some (trim v)),
       sku := (case set_sku q of None \<Rightarrow> sku p | Some v \<Rightarrow> toUpperCase (trim v)),
       category := (case set_category q of None \<Rightarrow> category p | Some v \<Rightarrow> trim v),
       price := (case set_price q of None \<Rightarrow> price p | Some v \<Rightarrow> v),
       quantity := (case set_quantity q of None \<Rightarrow> quantity p | Some v \<Rightarrow> v),
       minStockLevel :=
         (case set_minStockLevel q of None \<Rightarrow> minStockLevel p | Some v \<Rightarrow> v),
       images := (case set_images q of None \<Rightarrow> images p | Some v \<Rightarrow> v),
       isActive := (case set_isActive q of None \<Rightarrow> isActive p | Some v \<Rightarrow> v)\<rparr>"


section \<open>The product repository\<close>

text \<open>\<^verbatim>\<open>BaseRepository.findById\<close>: the document with that \<^verbatim>\<open>_id\<close>, or \<^verbatim>\<open>null\<close>.\<close>

definition findById :: "product_store \<Rightarrow> string \<Rightarrow> product option" where
  "findById st i = find (\<lambda>p. pid p = i) st"

text \<open>\<^verbatim>\<open>ProductRepository.findBySku\<close>: \<^verbatim>\<open>findOne({ sku: sku.toUpperCase() })\<close>, the first
  document whose stored SKU is the upper-cased argument. The filter has no \<^verbatim>\<open>isActive\<close>
  condition.\<close>

definition findBySku :: "product_store \<Rightarrow> string \<Rightarrow> product option" where
  "findBySku st s = find (\<lambda>p. sku p = toUpperCase s) st"

text \<open>\<^verbatim>\<open>BaseRepository.create\<close>: \<^verbatim>\<open>new this.model(data)\<close>, then \<^verbatim>\<open>save()\<close>, which validates
  the document and inserts it, or rejects with the validation error.\<close>

definition save :: "product_store \<Rightarrow> product \<Rightarrow> (error + product) \<times> product_store" where
  "save st doc =
     (case validateDocument doc of
        [] \<Rightarrow> (Inr doc, st @ [doc])
      | e # es \<Rightarrow> (Inl (ValidationError (e # es)), st))"

definition create ::
  "product_store \<Rightarrow> string \<Rightarrow> string \<Rightarrow> string list \<Rightarrow> CreateProductRequest \<Rightarrow>
     (error + product) \<times> product_store" where
  "create st newId owner imgs d = save st (newDocument newId owner imgs d)"

text \<open>Replacing the document with a given \<^verbatim>\<open>_id\<close> in the collection.\<close>

fun replaceById :: "string \<Rightarrow> product \<Rightarrow> product_store \<Rightarrow> product_store" where
  "replaceById i p' [] = []"
| "replaceById i p' (p # ps) = (if pid p = i then p' # ps else p # replaceById i p' ps)"

text \<open>\<^verbatim>\<open>BaseRepository.update\<close>: \<^verbatim>\<open>findByIdAndUpdate(id, data, { new: true, runValidators:
  true })\<close>. The update is validated first; then the document with that id, if there is one,
  is changed and returned in its new state, else the result is \<^verbatim>\<open>null\<close>.\<close>

definition update ::
  "product_store \<Rightarrow> string \<Rightarrow> UpdateQuery \<Rightarrow> (error + product option) \<times> product_store" where
  "update st i q =
     (case validateUpdate q of
        e # es \<Rightarrow> (Inl (ValidationError (e # es)), st)
      | [] \<Rightarrow>
         (case findById st i of
            None \<Rightarrow> (Inr None, st)
          | Some p \<Rightarrow> (Inr (Some (applyUpdate q p)), replaceById i (applyUpdate q p) st)))"

text \<open>\<^verbatim>\<open>ProductRepository.updateStock\<close>: \<^verbatim>\<open>findByIdAndUpdate(productId, { quantity }, ...)\<close>.\<close>

definition repo_updateStock ::
  "product_store \<Rightarrow> string \<Rightarrow> int \<Rightarrow> (error + product option) \<times> product_store" where
  "repo_updateStock st productId q = update st productId (emptyUpdate\<lparr>set_quantity := Some q\<rparr>)"

text \<open>\<^verbatim>\<open>ProductRepository.findLowStock\<close>: the active documents, of the given owner when a
  non-empty owner id is passed, whose quantity is at most their minimum stock level.\<close>

definition findLowStock :: "product_store \<Rightarrow> string option \<Rightarrow> product list" where
  "findLowStock st owner =
     filter (\<lambda>p. isActive p \<and> (if truthy owner then Some (userId p) = owner else True) \<and>
                 quantity p \<le> minStockLevel p) st"


section \<open>The product service (\<^verbatim>\<open>ProductService\<close>)\<close>

text \<open>\<^verbatim>\<open>createProduct(userId, productData)\<close>; \<open>newId\<close> is the id the driver generates.\<close>

definition createProduct ::
  "product_store \<Rightarrow> string \<Rightarrow> string \<Rightarrow> CreateProductRequest \<Rightarrow>
     (error + product) \<times> product_store" where
  "createProduct st newId owner productData =
     (case findBySku st (req_sku productData) of
        Some existingProduct \<Rightarrow> (Inl DuplicateSKU, st)
      | None \<Rightarrow>
          create st newId owner
            (case req_images productData of None \<Rightarrow> [] | Some imgs \<Rightarrow> imgs) productData)"

text \<open>\<^verbatim>\<open>getProductById(productId, userId?)\<close>. The optional parameter \<^verbatim>\<open>userId\<close> of the
  service methods is written \<open>scope\<close>, and the mandatory one \<open>owner\<close>, since \<open>userId\<close> is the
  field of the product.\<close>

definition getProductById :: "product_store \<Rightarrow> string \<Rightarrow> string option \<Rightarrow> product option" where
  "getProductById st productId scope =
     (case findById st productId of
        None \<Rightarrow> None
      | Some p \<Rightarrow>
          if \<not> isActive p then None
          else if truthy scope \<and> Some (userId p) \<noteq> scope then None
          else Some p)"

text \<open>\<^verbatim>\<open>updateProduct(productId, userId, updateData)\<close>.\<close>

definition updateProduct ::
  "product_store \<Rightarrow> string \<Rightarrow> string \<Rightarrow> UpdateProductRequest \<Rightarrow>
     (error + product option) \<times> product_store" where
  "updateProduct st productId owner updateData =
     (case getProductById st productId (Some owner) of
        None \<Rightarrow> (Inl NotFoundOrForbidden, st)
      | Some existingProduct \<Rightarrow>
          (let skuExists =
                 (case upd_sku updateData of
                    None \<Rightarrow> None
                  | Some s \<Rightarrow>
                      if s \<noteq> [] \<and> s \<noteq> sku existingProduct then findBySku st s else None)
           in case skuExists of
                Some other \<Rightarrow> (Inl DuplicateSKU, st)
              | None \<Rightarrow> update st productId (toUpdateQuery updateData)))"

text \<open>\<^verbatim>\<open>deleteProduct(productId, userId)\<close>: a soft delete.\<close>

definition deleteProduct ::
  "product_store \<Rightarrow> string \<Rightarrow> string \<Rightarrow> (error + bool) \<times> product_store" where
  "deleteProduct st productId owner =
     (case getProductById st productId (Some owner) of
        None \<Rightarrow> (Inl NotFoundOrForbidden, st)
      | Some existingProduct \<Rightarrow>
          (case update st productId (emptyUpdate\<lparr>set_isActive := Some False\<rparr>) of
             (Inl e, st') \<Rightarrow> (Inl e, st')
           | (Inr result, st') \<Rightarrow> (Inr (result \<noteq> None), st')))"

text \<open>\<^verbatim>\<open>updateStock(productId, quantity, userId?)\<close>.\<close>

definition updateStock ::
  "product_store \<Rightarrow> string \<Rightarrow> int \<Rightarrow> string option \<Rightarrow>
     (error + product option) \<times> product_store" where
  "updateStock st productId q scope =
     (if q < 0 then (Inl NegativeQuantity, st)
      else (case getProductById st productId scope of
              None \<Rightarrow> (Inl NotFoundOrForbidden, st)
            | Some existingProduct \<Rightarrow> repo_updateStock st productId q))"

text \<open>\<^verbatim>\<open>getLowStockProducts(userId?)\<close>.\<close>

definition getLowStockProducts :: "product_store \<Rightarrow> string option \<Rightarrow> product list" where
  "getLowStockProducts st owner = findLowStock st owner"

text \<open>\<^verbatim>\<open>bulkUpdateStock(updates, userId?)\<close>: the \<^verbatim>\<open>for ... of\<close> loop awaits each
  \<^verbatim>\<open>updateStock\<close> in turn; an error thrown by one of them ends the loop and the call.\<close>

fun bulkUpdateStock ::
  "product_store \<Rightarrow> (string \<times> int) list \<Rightarrow> string option \<Rightarrow> (error + unit) \<times> product_store" where
  "bulkUpdateStock st [] scope = (Inr (), st)"
| "bulkUpdateStock st ((productId, q) # updates) scope =
     (case updateStock st productId q scope of
        (Inl e, st') \<Rightarrow> (Inl e, st')
      | (Inr r, st') \<Rightarrow> bulkUpdateStock st' updates scope)"

text \<open>\<^verbatim>\<open>adjustStock(productId, adjustment, userId?)\<close>.\<close>

definition adjustStock ::
  "product_store \<Rightarrow> string \<Rightarrow> int \<Rightarrow> string option \<Rightarrow>
     (error + product option) \<times> product_store" where
  "adjustStock st productId adjustment scope =
     (case getProductById st productId scope of
        None \<Rightarrow> (Inl NotFoundOrForbidden, st)
      | Some p \<Rightarrow>
          (let newQuantity = quantity p + adjustment in
           if newQuantity < 0 then (Inl InsufficientStock, st)
           else updateStock st productId newQuantity scope))"


section \<open>Searching (\<^verbatim>\<open>ProductRepository.searchProducts\<close>, \<^verbatim>\<open>BaseRepository.findWithPagination\<close>)\<close>

datatype sort_order = asc | desc

record ProductQuery =
  q_search :: "string option"
  q_category :: "string option"
  q_minPrice :: "rat option"
  q_maxPrice :: "rat option"
  q_inStock :: "bool option"
  q_page :: "int option"
  q_limit :: "int option"
  q_sortBy :: "string option"
  q_sortOrder :: "sort_order option"

record Pagination =
  page :: int
  limit :: int
  total :: int
  pages :: "int option"
  hasNext :: bool
  hasPrev :: bool

record PaginatedResponse =
  data :: "product list"
  pagination :: Pagination

text \<open>
  The filter that \<^verbatim>\<open>searchProducts\<close> builds, as a predicate on documents; it always
  contains \<^verbatim>\<open>isActive: true\<close>. The store's regular-expression match
  (\<^verbatim>\<open>$regex\<close> with option \<^verbatim>\<open>i\<close>) is the parameter \<open>regex\<close>, applied to the pattern and
  the field; a document without description does not match on that field.
\<close>

definition searchFilter ::
  "(string \<Rightarrow> string \<Rightarrow> bool) \<Rightarrow> ProductQuery \<Rightarrow> product \<Rightarrow> bool" where
  "searchFilter regex q p =
     (isActive p \<and>
      (case q_search q of
         None \<Rightarrow> True
       | Some s \<Rightarrow>
           s = [] \<or> regex s (name p) \<or>
           (case description p of None \<Rightarrow> False | Some d \<Rightarrow> regex s d) \<or> regex s (sku p)) \<and>
      (case q_category q of None \<Rightarrow> True | Some c \<Rightarrow> c = [] \<or> category p = c) \<and>
      (case q_minPrice q of None \<Rightarrow> True | Some m \<Rightarrow> m \<le> price p) \<and>
      (case q_maxPrice q of None \<Rightarrow> True | Some m \<Rightarrow> price p \<le> m) \<and>
      (case q_inStock q of
         None \<Rightarrow> True
       | Some b \<Rightarrow> if b then 0 < quantity p else quantity p = 0))"

text \<open>
  \<^verbatim>\<open>findWithPagination(filter, { page, limit, sortBy, sortOrder })\<close>. The store's sort is the
  parameter \<open>sortDocs\<close>, called with the field and the direction (1 or -1). The cursor
  skips \<open>(page - 1) * limit\<close> documents, which the store refuses when negative, and
  returns at most \<open>|limit|\<close> documents, all of them when the limit is 0. The number of
  pages is \<^verbatim>\<open>Math.ceil(total / limit)\<close>, not finite when the limit is 0 (\<open>None\<close>):
  then \<^verbatim>\<open>page < pages\<close> holds exactly when \<open>total\<close> is positive.
\<close>

definition findWithPagination ::
  "(string \<Rightarrow> int \<Rightarrow> product list \<Rightarrow> product list) \<Rightarrow> product_store \<Rightarrow> (product \<Rightarrow> bool) \<Rightarrow>
     int \<Rightarrow> int \<Rightarrow> string \<Rightarrow> sort_order \<Rightarrow> error + PaginatedResponse" where
  "findWithPagination sortDocs st matching pageNo limitNo sortBy sortOrder =
     (let skip = (pageNo - 1) * limitNo;
          docs = sortDocs sortBy (if sortOrder = asc then 1 else - 1) (filter matching st);
          tot = int (length (filter matching st));
          pgs = (if limitNo = 0 then None
                 else Some \<lceil>rat_of_int tot / rat_of_int limitNo\<rceil>)
      in if skip < 0 then Inl MongoServerError
         else Inr \<lparr>data = (if limitNo = 0 then drop (nat skip) docs
                           else take (nat \<bar>limitNo\<bar>) (drop (nat skip) docs)),
                   pagination =
                     \<lparr>page = pageNo, limit = limitNo, total = tot, pages = pgs,
                      hasNext = (case pgs of None \<Rightarrow> 0 < tot | Some n \<Rightarrow> pageNo < n),
                      hasPrev = (1 < pageNo)\<rparr>\<rparr>)"

definition repo_searchProducts ::
  "(string \<Rightarrow> string \<Rightarrow> bool) \<Rightarrow> (string \<Rightarrow> int \<Rightarrow> product list \<Rightarrow> product list) \<Rightarrow>
     product_store \<Rightarrow> ProductQuery \<Rightarrow> error + PaginatedResponse" where
  "repo_searchProducts regex sortDocs st q =
     findWithPagination sortDocs st (searchFilter regex q)
       (case q_page q of None \<Rightarrow> 1 | Some n \<Rightarrow> n)
       (case q_limit q of None \<Rightarrow> 10 | Some n \<Rightarrow> n)
       (case q_sortBy q of None \<Rightarrow> ''createdAt'' | Some f \<Rightarrow> f)
       (case q_sortOrder q of None \<Rightarrow> desc | Some d \<Rightarrow> d)"

text \<open>\<^verbatim>\<open>ProductService.searchProducts(query)\<close>.\<close>

definition searchProducts ::
  "(string \<Rightarrow> string \<Rightarrow> bool) \<Rightarrow> (string \<Rightarrow> int \<Rightarrow> product list \<Rightarrow> product list) \<Rightarrow>
     product_store \<Rightarrow> ProductQuery \<Rightarrow> error + PaginatedResponse" where
  "searchProducts regex sortDocs st q = repo_searchProducts regex sortDocs st q"


section \<open>Users and the authentication service (\<^verbatim>\<open>AuthService\<close>, \<^verbatim>\<open>UserRepository\<close>)\<close>

datatype UserRole = ADMIN | USER | MANAGER

text \<open>
  A user document without its password is what \<^verbatim>\<open>sanitizeUser\<close> returns; the stored
  document extends it by the password hash. \<open>lastLoginAt\<close> is a time stamp.
\<close>

record PublicUser =
  uid :: string
  email :: string
  firstName :: string
  lastName :: string
  role :: UserRole
  userIsActive :: bool
  lastLoginAt :: "nat option"

record user = PublicUser +
  password :: string

type_synonym user_store = "user list"

record LoginRequest =
  login_email :: string
  login_password :: string

record IJWTPayload =
  jwt_userId :: string
  jwt_email :: string
  jwt_role :: UserRole

record AuthResponse =
  auth_user :: PublicUser
  token :: string

abbreviation InvalidCredentials :: error where
  "InvalidCredentials \<equiv> Error ''Invalid email or password''"

abbreviation AccountDeactivated :: error where
  "AccountDeactivated \<equiv> Error ''Account is deactivated. Please contact support''"

text \<open>\<^verbatim>\<open>UserRepository.findByEmailWithPassword\<close>:
  \<^verbatim>\<open>findOne({ email: email.toLowerCase() }).select('+password')\<close>.\<close>

definition findByEmailWithPassword :: "user_store \<Rightarrow> string \<Rightarrow> user option" where
  "findByEmailWithPassword us e = find (\<lambda>u. email u = toLowerCase e) us"

text \<open>Changing the first user document with a given id, as \<^verbatim>\<open>findByIdAndUpdate\<close> does.\<close>

fun updateUserById :: "string \<Rightarrow> (user \<Rightarrow> user) \<Rightarrow> user_store \<Rightarrow> user_store" where
  "updateUserById i f [] = []"
| "updateUserById i f (u # us) = (if uid u = i then f u # us else u # updateUserById i f us)"

text \<open>\<^verbatim>\<open>UserRepository.updateLastLogin\<close>: \<^verbatim>\<open>findByIdAndUpdate(userId, { lastLoginAt: new Date()
  })\<close>; the current time is the parameter \<open>now\<close>.\<close>

definition updateLastLogin :: "nat \<Rightarrow> user_store \<Rightarrow> string \<Rightarrow> user_store" where
  "updateLastLogin now us i = updateUserById i (\<lambda>u. u\<lparr>lastLoginAt := Some now\<rparr>) us"

text \<open>\<^verbatim>\<open>generateToken\<close>: the payload is signed by the library (\<^verbatim>\<open>jwt.sign\<close> with the secret
  and the expiry), the parameter \<open>sign\<close>.\<close>

definition generateToken :: "(IJWTPayload \<Rightarrow> string) \<Rightarrow> user \<Rightarrow> string" where
  "generateToken sign u = sign \<lparr>jwt_userId = uid u, jwt_email = email u, jwt_role = role u\<rparr>"

text \<open>\<^verbatim>\<open>sanitizeUser\<close>: the user object with the \<^verbatim>\<open>password\<close> property deleted.\<close>

definition sanitizeUser :: "user \<Rightarrow> PublicUser" where
  "sanitizeUser u = PublicUser.truncate u"

text \<open>
  \<^verbatim>\<open>login(credentials)\<close>. The method \<^verbatim>\<open>comparePassword\<close> of the user document belongs to
  the user model; it is the parameter \<open>comparePassword\<close>, applied to the stored hash and
  the candidate password.
\<close>

definition login ::
  "(string \<Rightarrow> string \<Rightarrow> bool) \<Rightarrow> (IJWTPayload \<Rightarrow> string) \<Rightarrow> nat \<Rightarrow> user_store \<Rightarrow>
     LoginRequest \<Rightarrow> (error + AuthResponse) \<times> user_store" where
  "login comparePassword sign now us credentials =
     (case findByEmailWithPassword us (login_email credentials) of
        None \<Rightarrow> (Inl InvalidCredentials, us)
      | Some u \<Rightarrow>
          if \<not> userIsActive u then (Inl AccountDeactivated, us)
          else if \<not> comparePassword (password u) (login_password credentials)
          then (Inl InvalidCredentials, us)
          else (Inr \<lparr>auth_user = sanitizeUser u, token = generateToken sign u\<rparr>,
                updateLastLogin now us (uid u)))"

text \<open>
  \<^verbatim>\<open>changePassword(userId, currentPassword, newPassword)\<close>. The user is looked up by
  \<^verbatim>\<open>findByEmailWithPassword('')\<close>. On success \<^verbatim>\<open>update(userId, { password: newPassword })\<close>
  stores the new password through the store layer, whose treatment of the value (the
  hashing) is the parameter \<open>storePassword\<close>. The argument \<open>userId'\<close> is the method's
  \<^verbatim>\<open>userId\<close>.
\<close>

definition changePassword ::
  "(string \<Rightarrow> string \<Rightarrow> bool) \<Rightarrow> (string \<Rightarrow> string) \<Rightarrow> user_store \<Rightarrow> string \<Rightarrow> string \<Rightarrow>
     string \<Rightarrow> (error + unit) \<times> user_store" where
  "changePassword comparePassword storePassword us userId' currentPassword newPassword =
     (case findByEmailWithPassword us [] of
        None \<Rightarrow> (Inl (Error ''User not found''), us)
      | Some u \<Rightarrow>
          if \<not> comparePassword (password u) currentPassword
          then (Inl (Error ''Current password is incorrect''), us)
          else (Inr (),
                updateUserById userId' (\<lambda>v. v\<lparr>password := storePassword newPassword\<rparr>) us))"


section \<open>The store invariant\<close>

text \<open>
  What the schema guarantees of every stored collection: the ids are distinct, every SKU is
  in upper case (the setter \<^verbatim>\<open>uppercase: true\<close>), and no quantity is negative (the
  validator \<^verbatim>\<open>min: 0\<close>). The empty collection has the property, and the operations of
  the service keep it (lemmas \<open>wellFormed_...\<close> below).
\<close>

definition wellFormed :: "product_store \<Rightarrow> bool" where
  "wellFormed st =
     (distinct (map pid st) \<and>
      list_all (\<lambda>p. sku p = toUpperCase (sku p) \<and> 0 \<le> quantity p) st)"


section \<open>Example data\<close>

text \<open>Two products of two owners, used to run the operations on concrete stores.\<close>

definition widget :: product where
  "widget =
     \<lparr>pid = ''p1'', name = ''Widget'', description = None, sku = ''ABC-1'',
      category = ''Tools'', price = 10, quantity = 10, minStockLevel = 5, images = [],
      isActive = True, userId = ''u1''\<rparr>"

definition gadget :: product where
  "gadget =
     \<lparr>pid = ''p2'', name = ''Gadget'', description = Some ''A small gadget'', sku = ''X1'',
      category = ''Tools'', price = 3 / 2, quantity = 2, minStockLevel = 5, images = [],
      isActive = True, userId = ''u2''\<rparr>"


definition widgetRequest :: CreateProductRequest where
  "widgetRequest =
     \<lparr>req_name = ''Widget'', req_description = None, req_sku = ''abc-1'',
      req_category = ''Tools'', req_price = 10, req_quantity = 10, req_minStockLevel = 5,
      req_images = None\<rparr>"

text \<open>The update request \<^verbatim>\<open>{ sku: s }\<close>.\<close>

definition skuPatch :: "string \<Rightarrow> UpdateProductRequest" where
  "skuPatch s =
     \<lparr>upd_name = None, upd_description = None, upd_sku = Some s, upd_category = None,
      upd_price = None, upd_quantity = None, upd_minStockLevel = None, upd_images = None\<rparr>"


text \<open>The query without any filter; a sort and a match to run the search with.\<close>

definition anyQuery :: ProductQuery where
  "anyQuery =
     \<lparr>q_search = None, q_category = None, q_minPrice = None, q_maxPrice = None,
      q_inStock = None, q_page = None, q_limit = None, q_sortBy = None, q_sortOrder = None\<rparr>"

definition exampleSort :: "string \<Rightarrow> int \<Rightarrow> product list \<Rightarrow> product list" where
  "exampleSort field direction docs = (if direction = 1 then docs else rev docs)"

definition exampleRegex :: "string \<Rightarrow> string \<Rightarrow> bool" where
  "exampleRegex pattern subject = (toUpperCase pattern = toUpperCase subject)"


text \<open>Two users, the second deactivated; a password check and a token signer to run
  the authentication service with. The hash of a password \<open>pw\<close> is written \<open>hash:pw\<close>.\<close>

definition alice :: user where
  "alice =
     \<lparr>uid = ''u1'', email = ''a@x.com'', firstName = ''Alice'', lastName = ''A'', role = USER,
      userIsActive = True, lastLoginAt = None, password = ''hash:secret123''\<rparr>"

definition bob :: user where
  "bob =
     \<lparr>uid = ''u2'', email = ''b@x.com'', firstName = ''Bob'', lastName = ''B'', role = MANAGER,
      userIsActive = False, lastLoginAt = None, password = ''hash:hunter2''\<rparr>"

definition exampleCompare :: "string \<Rightarrow> string \<Rightarrow> bool" where
  "exampleCompare stored candidate = (stored = ''hash:'' @ candidate)"

definition exampleSign :: "IJWTPayload \<Rightarrow> string" where
  "exampleSign payload = ''token:'' @ jwt_userId payload"

definition credentials :: "string \<Rightarrow> string \<Rightarrow> LoginRequest" where
  "credentials e pw = \<lparr>login_email = e, login_password = pw\<rparr>"


section \<open>Auxiliary facts\<close>

lemma toUpperChar_idem: "toUpperChar (toUpperChar c) = toUpperChar c"
  by (auto simp: toUpperChar_def Let_def)

lemma toUpperCase_idem: "toUpperCase (toUpperCase s) = toUpperCase s"
  by (simp add: toUpperCase_def toUpperChar_idem)

lemma findById_Some: "findById st i = Some p \<Longrightarrow> p \<in> set st \<and> pid p = i"
  by (auto simp: findById_def find_Some_iff)

lemma findById_None: "(findById st i = None) = (i \<notin> pid ` set st)"
  by (auto simp: findById_def find_None_iff)

lemma getProductById_Some:
  "getProductById st i scope = Some p \<Longrightarrow> findById st i = Some p \<and> isActive p"
  by (auto simp: getProductById_def split: option.splits if_splits)

lemma findById_replaceById:
  "findById st i = Some p \<Longrightarrow> pid p' = i \<Longrightarrow>
   findById (replaceById i p' st) j = (if j = i then Some p' else findById st j)"
  by (induction st) (auto simp: findById_def)

lemma pid_applyUpdate: "pid (applyUpdate q p) = pid p"
  by (simp add: applyUpdate_def)

lemma validateUpdate_quantity:
  "validateUpdate (emptyUpdate\<lparr>set_quantity := Some q\<rparr>) =
     (if q < 0 then [''Quantity cannot be negative''] else [])"
  by (simp add: validateUpdate_def emptyUpdate_def validateOpt_def validateQuantity_def)

lemma applyUpdate_quantity:
  "applyUpdate (emptyUpdate\<lparr>set_quantity := Some q\<rparr>) p = p\<lparr>quantity := q\<rparr>"
  by (simp add: applyUpdate_def emptyUpdate_def)

lemma repo_updateStock_found:
  "0 \<le> q \<Longrightarrow> findById st i = Some p \<Longrightarrow>
   repo_updateStock st i q =
     (Inr (Some (p\<lparr>quantity := q\<rparr>)), replaceById i (p\<lparr>quantity := q\<rparr>) st)"
  by (simp add: repo_updateStock_def update_def validateUpdate_quantity applyUpdate_quantity)


text \<open>What \<open>updateStock\<close> does, case by case: the quantity check of the store never fails
  after the service's own check.\<close>

lemma updateStock_cases:
  "updateStock st i q scope =
     (if q < 0 then (Inl NegativeQuantity, st)
      else case getProductById st i scope of
             None \<Rightarrow> (Inl NotFoundOrForbidden, st)
           | Some p \<Rightarrow>
               (Inr (Some (p\<lparr>quantity := q\<rparr>)), replaceById i (p\<lparr>quantity := q\<rparr>) st))"
  by (cases "getProductById st i scope")
     (simp_all add: updateStock_def repo_updateStock_found getProductById_Some)

lemma updateStock_fails_iff:
  "(\<exists>e. fst (updateStock st i q scope) = Inl e) =
     (q < 0 \<or> getProductById st i scope = None)"
  by (simp add: updateStock_cases split: option.split)

lemma updateStock_failure_keeps_store:
  "fst (updateStock st i q scope) = Inl e \<Longrightarrow> snd (updateStock st i q scope) = st"
  by (simp add: updateStock_cases split: option.splits if_splits)




text \<open>Look-ups by SKU, creation, deletion, search, and the store invariant.\<close>

lemma findBySku_None: "(findBySku st s = None) = (\<forall>p \<in> set st. sku p \<noteq> toUpperCase s)"
  by (auto simp: findBySku_def find_None_iff)

lemma findBySku_taken:
  "p \<in> set st \<Longrightarrow> sku p = toUpperCase (sku p) \<Longrightarrow> sameSkuIgnoringCase (sku p) s \<Longrightarrow>
   \<exists>x. findBySku st s = Some x"
  by (cases "findBySku st s") (auto simp: findBySku_None sameSkuIgnoringCase_def)

lemma createProduct_duplicate:
  "p \<in> set st \<Longrightarrow> sku p = toUpperCase (sku p) \<Longrightarrow> sameSkuIgnoringCase (sku p) (req_sku d) \<Longrightarrow>
   createProduct st newId owner d = (Inl DuplicateSKU, st)"
  using findBySku_taken [of p st "req_sku d"] by (auto simp: createProduct_def)


lemma validateUpdate_isActive:
  "validateUpdate (emptyUpdate\<lparr>set_isActive := Some b\<rparr>) = []"
  by (simp add: validateUpdate_def emptyUpdate_def validateOpt_def)

lemma applyUpdate_isActive:
  "applyUpdate (emptyUpdate\<lparr>set_isActive := Some b\<rparr>) p = p\<lparr>isActive := b\<rparr>"
  by (simp add: applyUpdate_def emptyUpdate_def)

lemma deleteProduct_cases:
  "deleteProduct st i owner =
     (case getProductById st i (Some owner) of
        None \<Rightarrow> (Inl NotFoundOrForbidden, st)
      | Some p \<Rightarrow> (Inr True, replaceById i (p\<lparr>isActive := False\<rparr>) st))"
  by (cases "getProductById st i (Some owner)")
     (auto simp: deleteProduct_def update_def validateUpdate_isActive applyUpdate_isActive
        dest: getProductById_Some)

lemma set_replaceById: "set (replaceById i p' st) \<subseteq> insert p' (set st)"
  by (induction st) auto

lemma replaceById_unique:
  "distinct (map pid st) \<Longrightarrow> findById st i = Some p \<Longrightarrow> pid p' = i \<Longrightarrow>
   x \<in> set (replaceById i p' st) \<Longrightarrow> pid x = i \<Longrightarrow> x = p'"
proof (induction st)
  case Nil
  then show ?case by simp
next
  case (Cons a st)
  show ?case
  proof (cases "pid a = i")
    case True
    then have "x = p' \<or> x \<in> set st" using Cons.prems(4) by simp
    moreover have "i \<notin> pid ` set st" using Cons.prems(1) True by auto
    ultimately show ?thesis using Cons.prems(5) by auto
  next
    case False
    then have "findById st i = Some p" using Cons.prems(2) by (simp add: findById_def)
    moreover have "x \<in> set (replaceById i p' st)"
      using Cons.prems(4,5) False by auto
    ultimately show ?thesis using Cons.IH Cons.prems(1,3,5) by simp
  qed
qed

lemma mem_replaceById:
  "findById st i = Some p \<Longrightarrow> p' \<in> set (replaceById i p' st)"
  by (induction st) (auto simp: findById_def split: if_splits)

lemma findWithPagination_data:
  assumes "\<forall>f d xs. set (sortDocs f d xs) \<subseteq> set xs"
      and "findWithPagination sortDocs st matching pageNo limitNo sortBy sortOrder = Inr r"
  shows "set (data r) \<subseteq> {x \<in> set st. matching x}"
proof -
  define docs where "docs = sortDocs sortBy (if sortOrder = asc then 1 else - 1) (filter matching st)"
  have "set docs \<subseteq> set (filter matching st)"
    unfolding docs_def using assms(1) by blast
  then have docs: "set docs \<subseteq> {x \<in> set st. matching x}"
    by simp
  have "data r = (if limitNo = 0 then drop (nat ((pageNo - 1) * limitNo)) docs
                  else take (nat \<bar>limitNo\<bar>) (drop (nat ((pageNo - 1) * limitNo)) docs))"
    using assms(2)
    by (cases "(pageNo - 1) * limitNo < 0")
       (auto simp: findWithPagination_def Let_def docs_def)
  then have "set (data r) \<subseteq> set docs"
    by (auto dest: in_set_takeD in_set_dropD)
  then show ?thesis using docs by blast
qed

lemma searchProducts_active:
  assumes "\<forall>f d xs. set (sortDocs f d xs) \<subseteq> set xs"
      and "searchProducts regex sortDocs st q = Inr r"
  shows "set (data r) \<subseteq> {x \<in> set st. isActive x}"
proof -
  have "set (data r) \<subseteq> {x \<in> set st. searchFilter regex q x}"
    using assms unfolding searchProducts_def repo_searchProducts_def
    by (rule findWithPagination_data)
  then show ?thesis by (auto simp: searchFilter_def)
qed

lemma validateDocument_quantity: "validateDocument p = [] \<Longrightarrow> 0 \<le> quantity p"
  by (simp add: validateDocument_def validateQuantity_def split: if_splits)

lemma validateUpdate_quantity_nonneg:
  "validateUpdate q = [] \<Longrightarrow> set_quantity q = Some v \<Longrightarrow> 0 \<le> v"
  by (simp add: validateUpdate_def validateOpt_def validateQuantity_def split: if_splits)

lemma wellFormed_Nil: "wellFormed []"
  by (simp add: wellFormed_def)

lemma wellFormed_save:
  assumes "wellFormed st" and "pid doc \<notin> pid ` set st" and "sku doc = toUpperCase (sku doc)"
  shows "wellFormed (snd (save st doc))"
proof (cases "validateDocument doc")
  case Nil
  then have "0 \<le> quantity doc" by (rule validateDocument_quantity)
  then show ?thesis using assms Nil by (simp add: save_def wellFormed_def)
next
  case (Cons e es)
  then show ?thesis using assms(1) by (simp add: save_def)
qed

lemma wellFormed_createProduct:
  assumes "wellFormed st" and "newId \<notin> pid ` set st"
  shows "wellFormed (snd (createProduct st newId owner d))"
proof (cases "findBySku st (req_sku d)")
  case None
  have "wellFormed (snd (save st (newDocument newId owner
          (case req_images d of None \<Rightarrow> [] | Some imgs \<Rightarrow> imgs) d)))"
    using assms by (intro wellFormed_save) (simp_all add: newDocument_def toUpperCase_idem)
  then show ?thesis using None by (simp add: createProduct_def create_def)
next
  case (Some a)
  then show ?thesis using assms(1) by (simp add: createProduct_def)
qed

lemma map_pid_replaceById: "pid p' = i \<Longrightarrow> map pid (replaceById i p' st) = map pid st"
  by (induction st) auto

lemma list_all_replaceById:
  "list_all P st \<Longrightarrow> P p' \<Longrightarrow> list_all P (replaceById i p' st)"
  by (induction st) auto

lemma wellFormed_update:
  assumes "wellFormed st"
  shows "wellFormed (snd (update st i q))"
proof (cases "validateUpdate q")
  case (Cons e es)
  then show ?thesis using assms by (simp add: update_def)
next
  case Nil
  show ?thesis
  proof (cases "findById st i")
    case None
    then show ?thesis using assms Nil by (simp add: update_def)
  next
    case (Some p)
    then have p: "p \<in> set st" "pid p = i" by (simp_all add: findById_Some)
    then have old: "sku p = toUpperCase (sku p)" "0 \<le> quantity p"
      using assms by (auto simp: wellFormed_def list_all_iff)
    have "sku (applyUpdate q p) = toUpperCase (sku (applyUpdate q p))"
      using old(1) by (simp add: applyUpdate_def toUpperCase_idem split: option.split)
    moreover have "0 \<le> quantity (applyUpdate q p)"
      using old(2) validateUpdate_quantity_nonneg [OF Nil]
      by (simp add: applyUpdate_def split: option.split)
    ultimately have "list_all (\<lambda>p. sku p = toUpperCase (sku p) \<and> 0 \<le> quantity p)
                       (replaceById i (applyUpdate q p) st)"
      using assms by (simp add: wellFormed_def list_all_replaceById)
    moreover have "map pid (replaceById i (applyUpdate q p) st) = map pid st"
      using p(2) by (simp add: map_pid_replaceById pid_applyUpdate)
    ultimately show ?thesis
      using assms Nil Some by (simp add: update_def wellFormed_def)
  qed
qed

lemma wellFormed_updateProduct:
  "wellFormed st \<Longrightarrow> wellFormed (snd (updateProduct st i owner u))"
  by (simp add: updateProduct_def Let_def wellFormed_update split: option.split)

lemma wellFormed_deleteProduct:
  "wellFormed st \<Longrightarrow> wellFormed (snd (deleteProduct st i owner))"
  using wellFormed_update [of st i "emptyUpdate\<lparr>set_isActive := Some False\<rparr>"]
  by (auto simp: deleteProduct_def split: option.split prod.split sum.split)

lemma wellFormed_updateStock:
  "wellFormed st \<Longrightarrow> wellFormed (snd (updateStock st i q scope))"
  by (simp add: updateStock_def repo_updateStock_def wellFormed_update split: option.split)

lemma wellFormed_adjustStock:
  "wellFormed st \<Longrightarrow> wellFormed (snd (adjustStock st i delta scope))"
  by (simp add: adjustStock_def Let_def wellFormed_updateStock split: option.split)

lemma wellFormed_bulkUpdateStock:
  "wellFormed st \<Longrightarrow> wellFormed (snd (bulkUpdateStock st us scope))"
proof (induction us arbitrary: st)
  case Nil
  then show ?case by simp
next
  case (Cons x us)
  obtain i q where x: "x = (i, q)" by (cases x)
  have "wellFormed (snd (updateStock st i q scope))"
    using Cons.prems by (rule wellFormed_updateStock)
  then show ?case
    using Cons.IH [of "snd (updateStock st i q scope)"]
    by (cases "updateStock st i q scope") (auto simp: x split: sum.split)
qed

text \<open>When \<open>updateProduct\<close> fails with \<open>DuplicateSKU\<close>: the update names a non-empty SKU that
  is not, character by character, the stored SKU of the product, and whose upper-case form
  is the SKU of some stored product, the product itself included.\<close>

lemma update_no_service_error: "fst (update st i q) \<noteq> Inl (Error m)"
  by (simp add: update_def split: list.split option.split)

lemma updateProduct_duplicate_iff:
  assumes "getProductById st i (Some owner) = Some p"
  shows "(fst (updateProduct st i owner u) = Inl DuplicateSKU) =
           (\<exists>s. upd_sku u = Some s \<and> s \<noteq> [] \<and> s \<noteq> sku p \<and>
                (\<exists>x \<in> set st. sku x = toUpperCase s))"
proof (cases "upd_sku u")
  case None
  then show ?thesis
    using assms by (simp add: updateProduct_def update_no_service_error)
next
  case (Some s)
  show ?thesis
  proof (cases "s \<noteq> [] \<and> s \<noteq> sku p")
    case False
    then show ?thesis
      using assms Some by (auto simp: updateProduct_def update_no_service_error)
  next
    case True
    show ?thesis
    proof (cases "findBySku st s")
      case None
      then have "updateProduct st i owner u = update st i (toUpdateQuery u)"
        using assms Some True by (simp add: updateProduct_def)
      moreover have "\<not> (\<exists>x \<in> set st. sku x = toUpperCase s)"
        using None by (simp add: findBySku_None)
      ultimately show ?thesis
        using Some by (simp add: update_no_service_error)
    next
      case (Some x)
      then have "\<exists>x \<in> set st. sku x = toUpperCase s"
        by (auto simp: findBySku_def find_Some_iff)
      then show ?thesis
        using assms \<open>upd_sku u = Some s\<close> True Some
        by (simp add: updateProduct_def)
    qed
  qed
qed

lemma upper_examples:
  "toUpperCase ''abc-1'' = ''ABC-1''" "toUpperCase ''ABC-1'' = ''ABC-1''"
  "toUpperCase ''X1'' = ''X1''"
  by code_simp+


lemma wellFormed_examples: "wellFormed [widget, gadget]" "wellFormed [widget\<lparr>isActive := False\<rparr>, gadget]"
  by (simp_all add: wellFormed_def widget_def gadget_def upper_examples)


lemma ceiling_example: "\<lceil>(1::rat) / 10\<rceil> = 1"
  by (simp add: ceiling_eq_iff)

lemma search_example:
  "searchProducts exampleRegex exampleSort [widget\<lparr>isActive := False\<rparr>, gadget] anyQuery =
     Inr \<lparr>data = [gadget],
          pagination = \<lparr>page = 1, limit = 10, total = 1, pages = Some 1, hasNext = False,
                        hasPrev = False\<rparr>\<rparr>"
  by (simp add: searchProducts_def repo_searchProducts_def findWithPagination_def anyQuery_def
        searchFilter_def exampleSort_def Let_def widget_def gadget_def ceiling_example)


text \<open>Users: look-ups, the last-login update, the sanitized user.\<close>

lemma find_updateUserById:
  "(\<And>v. uid (f v) = uid v) \<Longrightarrow>
   find (\<lambda>v. uid v = i) (updateUserById i f us) = map_option f (find (\<lambda>v. uid v = i) us)"
  by (induction us) auto

lemma find_by_own_id:
  "find P us = Some u \<Longrightarrow> \<exists>v. find (\<lambda>v. uid v = uid u) us = Some v"
  by (cases "find (\<lambda>v. uid v = uid u) us") (auto simp: find_None_iff find_Some_iff)

lemma lastLogin_recorded:
  assumes "findByEmailWithPassword us e = Some u"
  shows "\<exists>v. find (\<lambda>v. uid v = uid u) (updateLastLogin now us (uid u)) = Some v \<and>
             lastLoginAt v = Some now"
proof -
  obtain w where "find (\<lambda>v. uid v = uid u) us = Some w"
    using assms find_by_own_id unfolding findByEmailWithPassword_def by blast
  then show ?thesis
    by (simp add: updateLastLogin_def find_updateUserById)
qed

lemma sanitizeUser_fields:
  "sanitizeUser u =
     \<lparr>uid = uid u, email = email u, firstName = firstName u, lastName = lastName u,
      role = role u, userIsActive = userIsActive u, lastLoginAt = lastLoginAt u\<rparr>"
  by (simp add: sanitizeUser_def PublicUser.truncate_def)

lemma lower_examples:
  "toLowerCase ''a@x.com'' = ''a@x.com''" "toLowerCase ''A@X.com'' = ''a@x.com''"
  "toLowerCase ''b@x.com'' = ''b@x.com''" "toLowerCase ''nobody@x.com'' = ''nobody@x.com''"
  "toLowerCase [] = []"
  by code_simp+

lemma findByEmail_examples:
  "findByEmailWithPassword [alice, bob] ''A@X.com'' = Some alice"
  "findByEmailWithPassword [alice, bob] ''b@x.com'' = Some bob"
  "findByEmailWithPassword [alice, bob] ''nobody@x.com'' = None"
  "findByEmailWithPassword [alice, bob] [] = None"
  by (simp_all add: findByEmailWithPassword_def lower_examples alice_def bob_def)

lemma changePassword_user_not_found:
  "list_all (\<lambda>u. email u \<noteq> []) us \<Longrightarrow>
   changePassword cmp storePassword us i currentPassword newPassword =
     (Inl (Error ''User not found''), us)"
proof -
  assume "list_all (\<lambda>u. email u \<noteq> []) us"
  then have "findByEmailWithPassword us [] = None"
    by (auto simp: findByEmailWithPassword_def find_None_iff list_all_iff toLowerCase_def)
  then show ?thesis by (simp add: changePassword_def)
qed


section \<open>Properties\<close>






text \<open>
  Claim C3. For a non-empty scope (the id of a caller who is not an administrator): the
  lookup of an id that no product has, and the lookup of a product that exists but belongs
  to another user or is inactive, both return \<^verbatim>\<open>null\<close>, one and the same value.
\<close>

theorem getProductById_foreign_is_absent:
  assumes "scope \<noteq> []"
      and "findById st_absent productId = None"
      and "findById st_foreign productId = Some p"
      and "userId p \<noteq> scope \<or> \<not> isActive p"
  shows "getProductById st_absent productId (Some scope) = None \<and>
         getProductById st_foreign productId (Some scope) = None \<and>
         getProductById st_foreign productId (Some scope) =
           getProductById st_absent productId (Some scope)"
  using assms by (auto simp: getProductById_def truthy_def)

text \<open>The user \<open>u2\<close> asks for \<open>p1\<close>: in a store without it, and in a store where it belongs
  to \<open>u1\<close>.\<close>

theorem getProductById_foreign_is_absent_witness:
  "getProductById [gadget] ''p1'' (Some ''u2'') = None \<and>
   getProductById [widget, gadget] ''p1'' (Some ''u2'') = None \<and>
   getProductById [widget, gadget] ''p1'' (Some ''u2'') = getProductById [gadget] ''p1'' (Some ''u2'')"
  using getProductById_foreign_is_absent [of "''u2''" "[gadget]" "''p1''" "[widget, gadget]" widget]
  by (simp add: findById_def widget_def gadget_def)

text \<open>
  Claim C4. For every product with a non-negative quantity (the schema's validator
  \<^verbatim>\<open>min: 0\<close> admits no other into the store): the status is \<open>OUT_OF_STOCK\<close> if and only if
  the quantity is 0, \<open>LOW_STOCK\<close> if and only if the quantity is positive and at most the
  minimum stock level, and \<open>IN_STOCK\<close> in every other case.
\<close>

theorem stockStatus_classification:
  "0 \<le> quantity p \<Longrightarrow>
     (stockStatus p = OUT_OF_STOCK) = (quantity p = 0) \<and>
     (stockStatus p = LOW_STOCK) = (0 < quantity p \<and> quantity p \<le> minStockLevel p) \<and>
     (stockStatus p = IN_STOCK) =
       (\<not> quantity p = 0 \<and> \<not> (0 < quantity p \<and> quantity p \<le> minStockLevel p))"
  by (auto simp: stockStatus_def)

text \<open>With minimum stock level 5: quantity 10 is in stock, 5 is low, 0 is out of stock.\<close>

theorem stockStatus_classification_witness:
  "stockStatus widget = IN_STOCK \<and>
   stockStatus (widget\<lparr>quantity := 5\<rparr>) = LOW_STOCK \<and>
   stockStatus (widget\<lparr>quantity := 0\<rparr>) = OUT_OF_STOCK"
  using stockStatus_classification [of widget]
        stockStatus_classification [of "widget\<lparr>quantity := 5\<rparr>"]
        stockStatus_classification [of "widget\<lparr>quantity := 0\<rparr>"]
  by (simp add: widget_def)

text \<open>
  Claim C5. After a successful \<open>deleteProduct\<close> on a well-formed store, the product is
  still stored, inactive; it is in no result page of \<open>searchProducts\<close> (for a store sort
  that returns documents of its input), in no result of \<open>getLowStockProducts\<close>, and
  \<open>getProductById\<close> returns \<^verbatim>\<open>null\<close> for it under every scope, absent, empty or not.
  Its SKU stays reserved: \<open>createProduct\<close> with that SKU in any letter case fails with
  \<open>DuplicateSKU\<close>.
\<close>

theorem deleteProduct_hides_and_reserves_sku:
  assumes wf: "wellFormed st"
      and del: "deleteProduct st productId owner = (Inr ok, st')"
      and found: "findById st productId = Some p"
      and sortOk: "\<forall>f d xs. set (sortDocs f d xs) \<subseteq> set xs"
  shows "findById st' productId = Some (p\<lparr>isActive := False\<rparr>) \<and>
         (\<forall>q r. searchProducts regex sortDocs st' q = Inr r \<longrightarrow> productId \<notin> pid ` set (data r)) \<and>
         (\<forall>scope. productId \<notin> pid ` set (getLowStockProducts st' scope)) \<and>
         (\<forall>scope. getProductById st' productId scope = None) \<and>
         (\<forall>newId u d. sameSkuIgnoringCase (sku p) (req_sku d) \<longrightarrow>
            createProduct st' newId u d = (Inl DuplicateSKU, st'))"
proof -
  let ?p' = "p\<lparr>isActive := False\<rparr>"
  have pidp: "pid p = productId" using found by (simp add: findById_Some)
  have st': "st' = replaceById productId ?p' st"
    using del found by (auto simp: deleteProduct_cases split: option.splits dest: getProductById_Some)
  have f': "findById st' productId = Some ?p'"
    using found pidp by (simp add: st' findById_replaceById)
  have only: "\<And>x. x \<in> set st' \<Longrightarrow> pid x = productId \<Longrightarrow> \<not> isActive x"
  proof -
    fix x assume "x \<in> set st'" "pid x = productId"
    then have "x = ?p'"
      using wf found pidp replaceById_unique [of st productId p ?p' x]
      by (simp add: st' wellFormed_def)
    then show "\<not> isActive x" by simp
  qed
  have search: "\<forall>q r. searchProducts regex sortDocs st' q = Inr r \<longrightarrow> productId \<notin> pid ` set (data r)"
  proof (intro allI impI)
    fix q r assume "searchProducts regex sortDocs st' q = Inr r"
    then have "set (data r) \<subseteq> {x \<in> set st'. isActive x}"
      using sortOk by (simp add: searchProducts_active)
    then show "productId \<notin> pid ` set (data r)" using only by blast
  qed
  have low: "\<forall>scope. productId \<notin> pid ` set (getLowStockProducts st' scope)"
    using only by (auto simp: getLowStockProducts_def findLowStock_def)
  have get: "\<forall>scope. getProductById st' productId scope = None"
    by (simp add: getProductById_def f')
  have mem: "?p' \<in> set st'" using found by (simp add: st' mem_replaceById)
  have up: "sku ?p' = toUpperCase (sku ?p')"
    using wf found by (auto simp: wellFormed_def list_all_iff dest: findById_Some)
  have reserved: "\<forall>newId u d. sameSkuIgnoringCase (sku p) (req_sku d) \<longrightarrow>
            createProduct st' newId u d = (Inl DuplicateSKU, st')"
    using createProduct_duplicate [OF mem up] by simp
  show ?thesis using f' search low get reserved by blast
qed

text \<open>The owner deletes \<open>p1\<close>: it is no longer found, searched or listed, and a request
  with its SKU in lower case is refused.\<close>

theorem deleteProduct_hides_and_reserves_sku_witness:
  "deleteProduct [widget, gadget] ''p1'' ''u1'' = (Inr True, [widget\<lparr>isActive := False\<rparr>, gadget]) \<and>
   (\<exists>r. searchProducts exampleRegex exampleSort [widget\<lparr>isActive := False\<rparr>, gadget] anyQuery =
          Inr r \<and> ''p1'' \<notin> pid ` set (data r)) \<and>
   ''p1'' \<notin> pid ` set (getLowStockProducts [widget\<lparr>isActive := False\<rparr>, gadget] None) \<and>
   getProductById [widget\<lparr>isActive := False\<rparr>, gadget] ''p1'' None = None \<and>
   getProductById [widget\<lparr>isActive := False\<rparr>, gadget] ''p1'' (Some ''u1'') = None \<and>
   createProduct [widget\<lparr>isActive := False\<rparr>, gadget] ''p3'' ''u2'' widgetRequest =
     (Inl DuplicateSKU, [widget\<lparr>isActive := False\<rparr>, gadget])"
proof -
  have del: "deleteProduct [widget, gadget] ''p1'' ''u1'' =
               (Inr True, [widget\<lparr>isActive := False\<rparr>, gadget])"
    by (simp add: deleteProduct_cases getProductById_def findById_def truthy_def)
       (simp add: widget_def)
  have found: "findById [widget, gadget] ''p1'' = Some widget"
    by (simp add: findById_def widget_def)
  have sortOk: "\<forall>f d xs. set (exampleSort f d xs) \<subseteq> set xs"
    by (simp add: exampleSort_def)
  have same: "sameSkuIgnoringCase (sku widget) (req_sku widgetRequest)"
    by (simp add: sameSkuIgnoringCase_def widget_def widgetRequest_def upper_examples)
  show ?thesis
    using deleteProduct_hides_and_reserves_sku
            [OF wellFormed_examples(1) del found sortOk, of exampleRegex]
          del same search_example
    by blast
qed

text \<open>
  Claim C6, at the input where the code departs from it. The product \<open>p1\<close> has the SKU
  \<open>ABC-1\<close> and no other product has it. Its owner submits the update \<^verbatim>\<open>{ sku: 'abc-1' }\<close>:
  the strings differ, \<open>findBySku\<close> finds the product itself, and the call fails with
  \<open>DuplicateSKU\<close> (the general condition is \<open>updateProduct_duplicate_iff\<close>).
\<close>

theorem updateProduct_own_sku_other_case:
  "findBySku [widget, gadget] ''abc-1'' = Some widget \<and>
   updateProduct [widget, gadget] ''p1'' ''u1'' (skuPatch ''abc-1'') =
     (Inl DuplicateSKU, [widget, gadget])"
proof -
  have f: "findBySku [widget, gadget] ''abc-1'' = Some widget"
    by (simp add: findBySku_def upper_examples) (simp add: widget_def)
  have g: "getProductById [widget, gadget] ''p1'' (Some ''u1'') = Some widget"
    by (simp add: getProductById_def findById_def truthy_def) (simp add: widget_def)
  have "sku widget = ''ABC-1''" by (simp add: widget_def)
  then show ?thesis
    by (simp add: updateProduct_def g f skuPatch_def)
qed

text \<open>
  Claim C7, at an input where the code departs from it. The user \<open>u1\<close> has the email
  \<open>a@x.com\<close> and the password \<open>secret123\<close>, and asks to change it, giving the right
  current password. The code looks the user up by the empty email, finds none, and fails
  with \<open>User not found\<close>; the store is unchanged. This does not depend on how the store
  layer would have stored the new password.
\<close>

theorem changePassword_correct_password_rejected:
  "findByEmailWithPassword [alice, bob] ''a@x.com'' = Some alice \<and>
   exampleCompare (password alice) ''secret123'' \<and>
   changePassword exampleCompare storePassword [alice, bob] ''u1'' ''secret123'' ''newpass123'' =
     (Inl (Error ''User not found''), [alice, bob])"
  by (simp add: changePassword_def findByEmail_examples)
     (simp add: findByEmailWithPassword_def lower_examples alice_def exampleCompare_def)

text \<open>
  Claim C8, as the code has it. For every login attempt: when no user has the email, and
  when the user is active and the password does not match, the call fails with the same
  error \<open>InvalidCredentials\<close>, one message for both, and the store is unchanged; when the
  user is deactivated it fails with \<open>AccountDeactivated\<close>, whether the password matches
  or not, because the active flag is checked before the password; when the user is active
  and the password matches, the result is the user without the password together with
  the token, and the stored user carries the new last-login time.
\<close>

theorem login_outcomes:
  "(findByEmailWithPassword us (login_email c) = None \<longrightarrow>
      login cmp sign now us c = (Inl InvalidCredentials, us)) \<and>
   (\<forall>u. findByEmailWithPassword us (login_email c) = Some u \<longrightarrow>
      (\<not> userIsActive u \<longrightarrow> login cmp sign now us c = (Inl AccountDeactivated, us)) \<and>
      (userIsActive u \<and> \<not> cmp (password u) (login_password c) \<longrightarrow>
         login cmp sign now us c = (Inl InvalidCredentials, us)) \<and>
      (userIsActive u \<and> cmp (password u) (login_password c) \<longrightarrow>
         login cmp sign now us c =
           (Inr \<lparr>auth_user = sanitizeUser u, token = generateToken sign u\<rparr>,
            updateLastLogin now us (uid u)) \<and>
         sanitizeUser u =
           \<lparr>uid = uid u, email = email u, firstName = firstName u, lastName = lastName u,
            role = role u, userIsActive = userIsActive u, lastLoginAt = lastLoginAt u\<rparr> \<and>
         (\<exists>v. find (\<lambda>v. uid v = uid u) (snd (login cmp sign now us c)) = Some v \<and>
              lastLoginAt v = Some now)))"
proof (cases "findByEmailWithPassword us (login_email c)")
  case None
  then show ?thesis by (simp add: login_def)
next
  case (Some u)
  have "\<exists>v. find (\<lambda>v. uid v = uid u) (updateLastLogin now us (uid u)) = Some v \<and>
             lastLoginAt v = Some now"
    using Some by (rule lastLogin_recorded)
  then show ?thesis
    using Some by (simp add: login_def sanitizeUser_fields)
qed

text \<open>The four outcomes on a store with an active and a deactivated user.\<close>

theorem login_outcomes_witness:
  "login exampleCompare exampleSign 7 [alice, bob] (credentials ''nobody@x.com'' ''secret123'') =
     (Inl InvalidCredentials, [alice, bob]) \<and>
   login exampleCompare exampleSign 7 [alice, bob] (credentials ''A@X.com'' ''wrong'') =
     (Inl InvalidCredentials, [alice, bob]) \<and>
   login exampleCompare exampleSign 7 [alice, bob] (credentials ''b@x.com'' ''hunter2'') =
     (Inl AccountDeactivated, [alice, bob]) \<and>
   login exampleCompare exampleSign 7 [alice, bob] (credentials ''A@X.com'' ''secret123'') =
     (Inr \<lparr>auth_user = sanitizeUser alice, token = ''token:u1''\<rparr>,
      [alice\<lparr>lastLoginAt := Some 7\<rparr>, bob])"
proof -
  have facts:
    "userIsActive alice" "\<not> userIsActive bob"
    "\<not> exampleCompare (password alice) ''wrong''"
    "exampleCompare (password alice) ''secret123''"
    by (simp_all add: alice_def bob_def exampleCompare_def)
  have tok: "generateToken exampleSign alice = ''token:u1''"
    by (simp add: generateToken_def exampleSign_def alice_def)
  have upd: "updateLastLogin 7 [alice, bob] (uid alice) = [alice\<lparr>lastLoginAt := Some 7\<rparr>, bob]"
    by (simp add: updateLastLogin_def)
  show ?thesis
    using login_outcomes [of "[alice, bob]" "credentials ''nobody@x.com'' ''secret123''" exampleCompare exampleSign 7]
          login_outcomes [of "[alice, bob]" "credentials ''A@X.com'' ''wrong''" exampleCompare exampleSign 7]
          login_outcomes [of "[alice, bob]" "credentials ''b@x.com'' ''hunter2''" exampleCompare exampleSign 7]
          login_outcomes [of "[alice, bob]" "credentials ''A@X.com'' ''secret123''" exampleCompare exampleSign 7]
    by (simp add: credentials_def findByEmail_examples facts tok upd)
qed

text \<open>Claim C8 as stated fails: a wrong password for a deactivated account yields the
  message of \<open>AccountDeactivated\<close>, which is not the message an unknown email yields.\<close>

theorem login_counterexample:
  "\<not> exampleCompare (password bob) ''wrong'' \<and>
   fst (login exampleCompare exampleSign 0 [alice, bob] (credentials ''b@x.com'' ''wrong'')) =
     Inl AccountDeactivated \<and>
   fst (login exampleCompare exampleSign 0 [alice, bob] (credentials ''nobody@x.com'' ''wrong'')) =
     Inl InvalidCredentials \<and>
   AccountDeactivated \<noteq> InvalidCredentials"
  by (simp add: login_def credentials_def findByEmail_examples)
     (simp add: bob_def exampleCompare_def)




end
